theory Spec2Isabelle
  imports Main "HOL-Library.Word"
begin

section \<open>The OneModel page monitor (one\_model\_update.py)\<close>

text \<open>
  The script fetches one page, reads an optional \<open>Last update:\<close> stamp and every
  table from it, compares the stamp and a fingerprint of the combined tables with
  three files left by the previous run, and on a change rewrites the files and sends
  one e-mail.  Its functions are embedded one by one below, in the order of the source.

  Python's exceptions are values of \<open>exn\<close>; a function that may raise returns
  \<open>exn + 'a\<close> with \<open>Inl\<close> for the raise.  A Python \<open>str\<close> is a \<open>string\<close> whose
  characters stand for the code points below 256.
\<close>

datatype exn =
    ValueError | KeyError | AttributeError | RequestException | SMTPException | ParserError

subsection \<open>Strings\<close>

text \<open>
  \<open>str.isspace\<close> and the regular expression class \<open>\\s\<close> on code points below 256:
  TAB to CR, FS to US, the space, NEL (0x85) and the no-break space (0xA0).
\<close>

definition isspace :: "char \<Rightarrow> bool" where
  "isspace c = (c \<in> set [CHR 0x09, CHR 0x0A, CHR 0x0B, CHR 0x0C, CHR 0x0D, CHR 0x1C,
                          CHR 0x1D, CHR 0x1E, CHR 0x1F, CHR 0x20, CHR 0x85, CHR 0xA0])"

text \<open>The class \<open>\\d\<close>: below 256 the decimal digits are the ASCII ones.\<close>

definition isdigit :: "char \<Rightarrow> bool" where
  "isdigit c = (c \<in> set ''0123456789'')"

definition digit_val :: "char \<Rightarrow> nat" where
  "digit_val c = of_char c - 48"

definition digit_char :: "nat \<Rightarrow> char" where
  "digit_char n = ''0123456789'' ! (n mod 10)"

text \<open>\<open>s.strip()\<close>: leading and trailing whitespace removed.\<close>

definition strip :: "string \<Rightarrow> string" where
  "strip s = rev (dropWhile isspace (rev (dropWhile isspace s)))"

text \<open>\<open>str(n)\<close> for a non-negative integer, as the f-string of the table title prints it.\<close>

fun str_of_nat :: "nat \<Rightarrow> string" where
  "str_of_nat n =
     (if n < 10 then [digit_char n] else str_of_nat (n div 10) @ [digit_char (n mod 10)])"

declare str_of_nat.simps [simp del]

subsection \<open>Calendar dates: \<open>datetime.date\<close>, \<open>strptime\<close>, \<open>strftime\<close>\<close>

record date =
  year :: nat
  month :: nat
  day :: nat

definition is_leap :: "nat \<Rightarrow> bool" where
  "is_leap y = (y mod 400 = 0 \<or> (y mod 4 = 0 \<and> y mod 100 \<noteq> 0))"

definition days_in_month :: "nat \<Rightarrow> nat \<Rightarrow> nat" where
  "days_in_month y m =
     (if m = 2 then (if is_leap y then 29 else 28)
      else if m \<in> set [4, 6, 9, 11] then 30 else 31)"

definition valid_date :: "nat \<Rightarrow> nat \<Rightarrow> nat \<Rightarrow> bool" where
  "valid_date y m d =
     (1 \<le> y \<and> y \<le> 9999 \<and> 1 \<le> m \<and> m \<le> 12 \<and> 1 \<le> d \<and> d \<le> days_in_month y m)"

text \<open>The constructor \<open>date(y, m, d)\<close> raises \<open>ValueError\<close> outside the calendar.\<close>

definition mk_date :: "nat \<Rightarrow> nat \<Rightarrow> nat \<Rightarrow> exn + date" where
  "mk_date y m d =
     (if valid_date y m d then Inr \<lparr>year = y, month = m, day = d\<rparr> else Inl ValueError)"

text \<open>
  \<open>strptime\<close> turns its format into a regular expression and matches it at the start
  of the string, with backtracking.  Each directive is modelled by the list of its
  matches at the start of a string, in the order the expression tries them, each with
  the rest of the string:
  \<^item> \<open>%m\<close> is \<open>1[0-2]|0[1-9]|[1-9]\<close>;
  \<^item> \<open>%d\<close> is \<open>3[0-1]|[1-2]\\d|0[1-9]|[1-9]| [1-9]\<close>;
  \<^item> \<open>%y\<close> is \<open>\\d\\d\<close> and \<open>%Y\<close> is \<open>\\d\\d\\d\\d\<close>.
\<close>

definition re_m :: "string \<Rightarrow> (nat \<times> string) list" where
  "re_m s =
     (case s of a # b # r \<Rightarrow>
        (if a = CHR ''1'' \<and> b \<in> set ''012'' then [(10 + digit_val b, r)] else [])
      | _ \<Rightarrow> []) @
     (case s of a # b # r \<Rightarrow>
        (if a = CHR ''0'' \<and> b \<in> set ''123456789'' then [(digit_val b, r)] else [])
      | _ \<Rightarrow> []) @
     (case s of a # r \<Rightarrow>
        (if a \<in> set ''123456789'' then [(digit_val a, r)] else [])
      | _ \<Rightarrow> [])"

definition re_d :: "string \<Rightarrow> (nat \<times> string) list" where
  "re_d s =
     (case s of a # b # r \<Rightarrow>
        (if a = CHR ''3'' \<and> b \<in> set ''01'' then [(30 + digit_val b, r)] else [])
      | _ \<Rightarrow> []) @
     (case s of a # b # r \<Rightarrow>
        (if a \<in> set ''12'' \<and> isdigit b then [(10 * digit_val a + digit_val b, r)] else [])
      | _ \<Rightarrow> []) @
     (case s of a # b # r \<Rightarrow>
        (if a = CHR ''0'' \<and> b \<in> set ''123456789'' then [(digit_val b, r)] else [])
      | _ \<Rightarrow> []) @
     (case s of a # r \<Rightarrow>
        (if a \<in> set ''123456789'' then [(digit_val a, r)] else [])
      | _ \<Rightarrow> []) @
     (case s of a # b # r \<Rightarrow>
        (if a = CHR '' '' \<and> b \<in> set ''123456789'' then [(digit_val b, r)] else [])
      | _ \<Rightarrow> [])"

definition re_y :: "string \<Rightarrow> (nat \<times> string) list" where
  "re_y s =
     (case s of a # b # r \<Rightarrow>
        (if isdigit a \<and> isdigit b then [(10 * digit_val a + digit_val b, r)] else [])
      | _ \<Rightarrow> [])"

definition re_Y :: "string \<Rightarrow> (nat \<times> string) list" where
  "re_Y s =
     (case s of a # b # c # d # r \<Rightarrow>
        (if isdigit a \<and> isdigit b \<and> isdigit c \<and> isdigit d
         then [(1000 * digit_val a + 100 * digit_val b + 10 * digit_val c + digit_val d, r)]
         else [])
      | _ \<Rightarrow> [])"

definition lit :: "char \<Rightarrow> string \<Rightarrow> string list" where
  "lit c s = (case s of a # r \<Rightarrow> (if a = c then [r] else []) | [] \<Rightarrow> [])"

text \<open>
  \<open>datetime.strptime(s, "%m/%d/%y").date()\<close>.  The first match of the expression is
  taken; text left after it, or no match, raises \<open>ValueError\<close>.  A two-digit year up
  to 68 is in the 2000s, from 69 in the 1900s.
\<close>

definition strptime_mdy :: "string \<Rightarrow> exn + date" where
  "strptime_mdy s =
     (case List.bind (re_m s) (\<lambda>(m, r1).
           List.bind (lit CHR ''/'' r1) (\<lambda>r2.
           List.bind (re_d r2) (\<lambda>(d, r3).
           List.bind (lit CHR ''/'' r3) (\<lambda>r4.
           map (\<lambda>(y, r5). (m, d, y, r5)) (re_y r4))))) of
        [] \<Rightarrow> Inl ValueError
      | (m, d, y, rest) # _ \<Rightarrow>
          if rest \<noteq> [] then Inl ValueError
          else mk_date (if y \<le> 68 then 2000 + y else 1900 + y) m d)"

text \<open>\<open>datetime.strptime(s, "%Y-%m-%d").date()\<close>.\<close>

definition strptime_ymd :: "string \<Rightarrow> exn + date" where
  "strptime_ymd s =
     (case List.bind (re_Y s) (\<lambda>(y, r1).
           List.bind (lit CHR ''-'' r1) (\<lambda>r2.
           List.bind (re_m r2) (\<lambda>(m, r3).
           List.bind (lit CHR ''-'' r3) (\<lambda>r4.
           map (\<lambda>(d, r5). (y, m, d, r5)) (re_d r4))))) of
        [] \<Rightarrow> Inl ValueError
      | (y, m, d, rest) # _ \<Rightarrow>
          if rest \<noteq> [] then Inl ValueError else mk_date y m d)"

text \<open>
  \<open>d.strftime("%Y-%m-%d")\<close>: the year on four digits, month and day on two.  (For a
  year below 1000 some C libraries print fewer digits; the dates of this program come
  from \<open>%y\<close> and lie in 1969..2068.)
\<close>

definition pad2 :: "nat \<Rightarrow> string" where
  "pad2 n = [digit_char (n div 10), digit_char n]"

definition pad4 :: "nat \<Rightarrow> string" where
  "pad4 n = [digit_char (n div 1000), digit_char (n div 100), digit_char (n div 10), digit_char n]"

definition strftime_ymd :: "date \<Rightarrow> string" where
  "strftime_ymd d = pad4 (year d) @ ''-'' @ pad2 (month d) @ ''-'' @ pad2 (day d)"

subsection \<open>The parsed page (BeautifulSoup)\<close>

text \<open>
  The tree \<open>BeautifulSoup(response.text, "html.parser")\<close> builds: an element with its
  name and children, or a string of text.  Comments and the strings inside
  \<open>script\<close> and \<open>style\<close>, which \<open>get_text\<close> leaves out, are not part of the model.
  A page is the list of the top-level nodes.
\<close>

datatype node = Text string | Tag string "node list"

type_synonym soup = "node list"

text \<open>Document order: a node comes before its descendants, siblings left to right.\<close>

fun preorder :: "node \<Rightarrow> node list" where
  "preorder (Text s) = [Text s]"
| "preorder (Tag n cs) = Tag n cs # concat (map preorder cs)"

definition elements :: "soup \<Rightarrow> node list" where
  "elements doc = concat (map preorder doc)"

fun is_tag :: "node \<Rightarrow> bool" where
  "is_tag (Text s) = False"
| "is_tag (Tag n cs) = True"

fun tag_name :: "node \<Rightarrow> string" where
  "tag_name (Text s) = []"
| "tag_name (Tag n cs) = n"

fun strings :: "node \<Rightarrow> string list" where
  "strings (Text s) = [s]"
| "strings (Tag n cs) = concat (map strings cs)"

text \<open>\<open>soup.text\<close>: every string of the page, joined.\<close>

definition soup_text :: "soup \<Rightarrow> string" where
  "soup_text doc = concat (concat (map strings doc))"

text \<open>\<open>e.get_text(strip=True)\<close>: each string stripped, the empty ones dropped, the rest joined.\<close>

definition get_text_strip :: "node \<Rightarrow> string" where
  "get_text_strip e = concat (filter (\<lambda>s. s \<noteq> []) (map strip (strings e)))"

text \<open>
  \<open>soup.find_all("table")\<close>: the table elements in document order, each with its
  position among the elements of the page.
\<close>

definition find_all_tables :: "soup \<Rightarrow> (nat \<times> node) list" where
  "find_all_tables doc =
     filter (\<lambda>(p, e). is_tag e \<and> tag_name e = ''table'') (enumerate 0 (elements doc))"

text \<open>
  \<open>e.find_all_previous()\<close> for the element at position \<open>p\<close>: the elements (not the
  strings) that start before it, nearest first.
\<close>

definition find_all_previous :: "soup \<Rightarrow> nat \<Rightarrow> node list" where
  "find_all_previous doc p = filter is_tag (rev (take p (elements doc)))"

subsection \<open>Configuration\<close>

definition LAST_DATE_FILE :: string where
  "LAST_DATE_FILE = ''last_update_date.txt''"

definition LAST_HASH_FILE :: string where
  "LAST_HASH_FILE = ''last_data_hash.txt''"

definition COMBINED_CSV_FILE :: string where
  "COMBINED_CSV_FILE = ''latest_combined.csv''"

definition EMAIL_NOTIFICATION :: bool where
  "EMAIL_NOTIFICATION = True"

subsection \<open>\<open>fetch_update_date\<close>\<close>

text \<open>
  \<open>re.search(r"Last update:\\s*(\\d{1,2}/\\d{1,2}/\\d{2})", soup.text)\<close>.
  \<open>digits12\<close> is \<open>\\d{1,2}/\<close> at the start of a string: two digits and the slash,
  else one digit and the slash.  \<open>stamp_at\<close> is the pattern at the start of a string
  and gives group 1; whitespace and digits are disjoint, so the greedy \<open>\\s*\<close> never
  gives a character back.  \<open>re_search\<close> tries every start from the left.
\<close>

definition digits12 :: "string \<Rightarrow> (string \<times> string) option" where
  "digits12 s =
     (case s of
        a # b # r \<Rightarrow>
          (if isdigit a \<and> isdigit b \<and> (case r of c # r' \<Rightarrow> c = CHR ''/'' | [] \<Rightarrow> False)
           then Some ([a, b], tl r)
           else if isdigit a \<and> b = CHR ''/'' then Some ([a], r) else None)
      | _ \<Rightarrow> None)"

definition stamp_at :: "string \<Rightarrow> string option" where
  "stamp_at s =
     (if take 12 s = ''Last update:'' then
        (case digits12 (dropWhile isspace (drop 12 s)) of
           None \<Rightarrow> None
         | Some (m, r1) \<Rightarrow>
             (case digits12 r1 of
                None \<Rightarrow> None
              | Some (d, r2) \<Rightarrow>
                  (case r2 of
                     a # b # r3 \<Rightarrow>
                       (if isdigit a \<and> isdigit b then Some (m @ ''/'' @ d @ ''/'' @ [a, b])
                        else None)
                   | _ \<Rightarrow> None)))
      else None)"

fun re_search :: "string \<Rightarrow> string option" where
  "re_search [] = stamp_at []"
| "re_search (c # cs) =
     (case stamp_at (c # cs) of Some g \<Rightarrow> Some g | None \<Rightarrow> re_search cs)"

definition fetch_update_date :: "soup \<Rightarrow> exn + date option" where
  "fetch_update_date doc =
     (case re_search (soup_text doc) of
        Some g \<Rightarrow> (case strptime_mdy g of Inl e \<Rightarrow> Inl e | Inr d \<Rightarrow> Inr (Some d))
      | None \<Rightarrow> Inr None)"

subsection \<open>\<open>extract_and_combine_tables\<close>\<close>

text \<open>
  A row of the combined frame: its index label, the six cells read from the page and
  the \<open>Level\<close> cell.  The frame \<open>pd.DataFrame(columns=columns + ['Level'])\<close> and every
  frame concatenated to it have these seven columns, so a frame is the list of its
  rows, \<open>pd.concat([data, df])\<close> is \<open>@\<close> and \<open>data.empty\<close> is \<open>data = []\<close>.  The cell
  values \<open>pd.read\_html\<close> infers are kept abstract as \<open>'v\<close>.
\<close>

record 'v row =
  idx :: nat
  cells :: "'v list"
  level :: string

text \<open>What \<open>pd.read\_html(str(table), header=None)[0]\<close> returns: a frame with a default
  index, \<open>ncols\<close> columns and the rows \<open>body\<close>.\<close>

record 'v parsed =
  ncols :: nat
  body :: "'v list list"

text \<open>
  The libraries the script calls, as parameters: the HTML parser, \<open>pd.read\_html\<close> on one
  table element (it may raise), \<open>pd.util.hash\_pandas\_object(df, index=True).values\<close>
  (one 64-bit hash per row), \<open>hashlib.md5\<close> of that array (a 128-bit digest) and
  \<open>DataFrame.to\_csv(index=False)\<close>.
\<close>

record 'v world =
  html_parser :: "string \<Rightarrow> soup"
  read_html :: "node \<Rightarrow> exn + 'v parsed"
  hash_pandas_object :: "'v row list \<Rightarrow> 64 word list"
  md5 :: "64 word list \<Rightarrow> 128 word"
  to_csv :: "'v row list \<Rightarrow> string"

definition columns :: "string list" where
  "columns = [''Date'', ''Loc.'', ''Title'', ''Company'', ''Location'', ''Link'']"

definition title_tags :: "string list" where
  "title_tags = [''h1'', ''h2'', ''h3'', ''h4'', ''strong'', ''p'']"

text \<open>The inner loop (lines 47-52): the first previous element with a listed name and
  non-empty stripped text gives the title, and the loop stops there.\<close>

fun title_loop :: "node list \<Rightarrow> string option" where
  "title_loop [] = None"
| "title_loop (prev # rest) =
     (if tag_name prev \<in> set title_tags then
        (let t = get_text_strip prev in if t \<noteq> [] then Some t else title_loop rest)
      else title_loop rest)"

text \<open>The title of table number \<open>i\<close> (from 0), which stands at position \<open>p\<close>.\<close>

definition table_title :: "soup \<Rightarrow> nat \<Rightarrow> nat \<Rightarrow> string" where
  "table_title doc i p =
     (case title_loop (find_all_previous doc p) of
        Some t \<Rightarrow> t
      | None \<Rightarrow> ''Untitled Table '' @ str_of_nat (i + 1))"

text \<open>
  The body of the \<open>try\<close> (lines 55-58).  \<open>df.columns = columns\<close> raises \<open>ValueError\<close>
  unless the frame has six columns; \<open>df.drop(index=0)\<close> raises \<open>KeyError\<close> on a frame
  with no row; \<open>reset\_index(drop=True)\<close> numbers the rows left from 0.
\<close>

definition table_frame :: "'v world \<Rightarrow> string \<Rightarrow> node \<Rightarrow> exn + 'v row list" where
  "table_frame w title t =
     (case read_html w t of
        Inl e \<Rightarrow> Inl e
      | Inr df \<Rightarrow>
          if ncols df \<noteq> length columns then Inl ValueError
          else if body df = [] then Inl KeyError
          else Inr (map (\<lambda>(i, r). \<lparr>idx = i, cells = r, level = title\<rparr>)
                      (enumerate 0 (tl (body df)))))"

text \<open>What the script prints, and the lines of the e-mail.\<close>

datatype event =
    JobStarted | Checking | FailedToParse nat exn | NoTablesFound
  | ChangesDetected | EmailSent | NoChanges | JobFinished

text \<open>The loop over \<open>enumerate(tables)\<close>, carrying \<open>data\<close> and the warnings printed.\<close>

fun combine_loop ::
  "'v world \<Rightarrow> soup \<Rightarrow> (nat \<times> nat \<times> node) list \<Rightarrow> 'v row list \<times> event list
     \<Rightarrow> 'v row list \<times> event list" where
  "combine_loop w doc [] acc = acc"
| "combine_loop w doc ((i, p, t) # ts) (data, out) =
     (case table_frame w (table_title doc i p) t of
        Inr df \<Rightarrow> combine_loop w doc ts (data @ df, out)
      | Inl e \<Rightarrow> combine_loop w doc ts (data, out @ [FailedToParse (i + 1) e]))"

definition extract_and_combine_tables :: "'v world \<Rightarrow> soup \<Rightarrow> 'v row list \<times> event list" where
  "extract_and_combine_tables w doc =
     combine_loop w doc (enumerate 0 (find_all_tables doc)) ([], [])"

subsection \<open>The fingerprint\<close>

text \<open>\<open>digest.hexdigest()\<close>: the 128 bits as 32 lower-case hexadecimal digits.\<close>

definition hex_char :: "nat \<Rightarrow> char" where
  "hex_char n = ''0123456789abcdef'' ! (n mod 16)"

fun hex_pad :: "nat \<Rightarrow> nat \<Rightarrow> string" where
  "hex_pad 0 n = []"
| "hex_pad (Suc k) n = hex_pad k (n div 16) @ [hex_char n]"

definition hexdigest :: "128 word \<Rightarrow> string" where
  "hexdigest d = hex_pad 32 (unat d)"

text \<open>
  \<open>hashlib.md5(pd.util.hash\_pandas\_object(df, index=True).values).hexdigest()\<close>,
  written out twice in the source (lines 95 and 131).
\<close>

definition fingerprint :: "'v world \<Rightarrow> 'v row list \<Rightarrow> string" where
  "fingerprint w df = hexdigest (md5 w (hash_pandas_object w df))"

subsection \<open>The state files: \<open>load_previous_state\<close>, \<open>save_current_state\<close>\<close>

text \<open>
  The working directory as a map from file names to contents; \<open>os.path.exists\<close> is
  membership in its domain.  Failures of the file system itself are not modelled.
\<close>

type_synonym fs = "string \<rightharpoonup> string"

definition load_previous_state :: "fs \<Rightarrow> exn + (date option \<times> string option)" where
  "load_previous_state files =
     (case (case files LAST_DATE_FILE of
              Some c \<Rightarrow> (case strptime_ymd (strip c) of Inl e \<Rightarrow> Inl e | Inr d \<Rightarrow> Inr (Some d))
            | None \<Rightarrow> Inr None) of
        Inl e \<Rightarrow> Inl e
      | Inr last_date \<Rightarrow>
          Inr (last_date,
               (case files LAST_HASH_FILE of Some c \<Rightarrow> Some (strip c) | None \<Rightarrow> None)))"

text \<open>
  \<open>save_current_state\<close> changes the files one after another.  \<open>open(f, "w")\<close> creates
  or empties the file; \<open>f.write(s)\<close> adds \<open>s\<close> to it.  \<open>save_plan\<close> lists the changes in
  the order of the source with the exception that ends them, if any:
  \<open>update_date.strftime\<close> on \<open>None\<close> raises \<open>AttributeError\<close> inside the \<open>with\<close> block,
  after the date file was opened.  (\<open>STORAGE_DIR\<close> is the working directory, which
  exists, so \<open>os.makedirs\<close> is never called.)
\<close>

datatype effect = Open_w string | Write string string

fun apply_effect :: "fs \<Rightarrow> effect \<Rightarrow> fs" where
  "apply_effect files (Open_w f) = files(f \<mapsto> [])"
| "apply_effect files (Write f s) =
     files(f \<mapsto> (case files f of Some c \<Rightarrow> c @ s | None \<Rightarrow> s))"

definition save_plan :: "'v world \<Rightarrow> date option \<Rightarrow> 'v row list \<Rightarrow> effect list \<times> exn option" where
  "save_plan w update_date data_df =
     (case update_date of
        None \<Rightarrow> ([Open_w LAST_DATE_FILE], Some AttributeError)
      | Some d \<Rightarrow>
          ([Open_w LAST_DATE_FILE, Write LAST_DATE_FILE (strftime_ymd d),
            Open_w COMBINED_CSV_FILE, Write COMBINED_CSV_FILE (to_csv w data_df),
            Open_w LAST_HASH_FILE, Write LAST_HASH_FILE (fingerprint w data_df)],
           None))"

definition save_current_state ::
  "'v world \<Rightarrow> fs \<Rightarrow> date option \<Rightarrow> 'v row list \<Rightarrow> fs \<times> exn option" where
  "save_current_state w files update_date data_df =
     (case save_plan w update_date data_df of
        (effects, e) \<Rightarrow> (foldl apply_effect files effects, e))"

text \<open>A save cut short from outside (the process killed) after \<open>k\<close> of its changes.\<close>

definition save_interrupted ::
  "'v world \<Rightarrow> fs \<Rightarrow> date option \<Rightarrow> 'v row list \<Rightarrow> nat \<Rightarrow> fs" where
  "save_interrupted w files update_date data_df k =
     foldl apply_effect files (take k (fst (save_plan w update_date data_df)))"

subsection \<open>The change detector (lines 133-144 of \<open>main\<close>)\<close>

datatype message = DateChanged "date option" date | ContentChanged

text \<open>A \<open>date\<close> object is always true in a condition, so \<open>latest_update_date and ...\<close>
  tests that the date is not \<open>None\<close>.\<close>

definition detect_changes ::
  "date option \<Rightarrow> string \<Rightarrow> date option \<Rightarrow> string option \<Rightarrow> bool \<times> message list" where
  "detect_changes latest_update_date current_hash prev_date prev_hash =
     (let (update_detected, messages) =
            (case latest_update_date of
               Some d \<Rightarrow>
                 if Some d \<noteq> prev_date then (True, [DateChanged prev_date d])
                 else (False, [])
             | None \<Rightarrow> (False, []))
      in if Some current_hash \<noteq> prev_hash then (True, messages @ [ContentChanged])
         else (update_detected, messages))"

subsection \<open>\<open>main\<close>\<close>

text \<open>The answer of \<open>requests.get(URL)\<close>: any status code comes back as a response.\<close>

record response =
  status_code :: nat
  response_text :: string

text \<open>
  What a run leaves behind: the files, the bodies handed to \<open>send_email_alert\<close>, the
  lines printed, the exception that ended it (if any), the change report (if the
  detector ran) and whether \<open>save_current_state\<close> returned.
\<close>

record outcome =
  files_after :: fs
  alerts :: "message list list"
  printed :: "event list"
  raised :: "exn option"
  report :: "(bool \<times> message list) option"
  saved :: bool

text \<open>
  The run takes the libraries, what \<open>requests.get\<close> did (a raise or a response), what
  the SMTP session inside \<open>send_email_alert\<close> does (a raise or nothing) and the files
  it finds.
\<close>

definition main :: "'v world \<Rightarrow> exn + response \<Rightarrow> exn option \<Rightarrow> fs \<Rightarrow> outcome" where
  "main w fetched smtp files =
     (let out0 = [JobStarted, Checking] in
      case fetched of
        Inl e \<Rightarrow>
          \<lparr>files_after = files, alerts = [], printed = out0, raised = Some e,
           report = None, saved = False\<rparr>
      | Inr response \<Rightarrow>
          let doc = html_parser w (response_text response) in
          (case fetch_update_date doc of
             Inl e \<Rightarrow>
               \<lparr>files_after = files, alerts = [], printed = out0, raised = Some e,
                report = None, saved = False\<rparr>
           | Inr latest_update_date \<Rightarrow>
               (case extract_and_combine_tables w doc of
                  (combined_df, warnings) \<Rightarrow>
                    let out1 = out0 @ warnings in
                    if combined_df = [] then
                      \<lparr>files_after = files, alerts = [], printed = out1 @ [NoTablesFound],
                       raised = None, report = None, saved = False\<rparr>
                    else
                      (case load_previous_state files of
                         Inl e \<Rightarrow>
                           \<lparr>files_after = files, alerts = [], printed = out1,
                            raised = Some e, report = None, saved = False\<rparr>
                       | Inr (prev_date, prev_hash) \<Rightarrow>
                           let current_hash = fingerprint w combined_df in
                           (case detect_changes latest_update_date current_hash
                                   prev_date prev_hash of
                              (update_detected, messages) \<Rightarrow>
                                if update_detected then
                                  (let out2 = out1 @ [ChangesDetected] in
                                   case save_current_state w files latest_update_date
                                          combined_df of
                                     (files', Some e) \<Rightarrow>
                                       \<lparr>files_after = files', alerts = [], printed = out2,
                                        raised = Some e,
                                        report = Some (update_detected, messages),
                                        saved = False\<rparr>
                                   | (files', None) \<Rightarrow>
                                       if EMAIL_NOTIFICATION then
                                         (case smtp of
                                            Some e \<Rightarrow>
                                              \<lparr>files_after = files', alerts = [messages],
                                               printed = out2, raised = Some e,
                                               report = Some (update_detected, messages),
                                               saved = True\<rparr>
                                          | None \<Rightarrow>
                                              \<lparr>files_after = files', alerts = [messages],
                                               printed = out2 @ [EmailSent, JobFinished],
                                               raised = None,
                                               report = Some (update_detected, messages),
                                               saved = True\<rparr>)
                                       else
                                         \<lparr>files_after = files', alerts = [],
                                          printed = out2 @ [JobFinished], raised = None,
                                          report = Some (update_detected, messages),
                                          saved = True\<rparr>)
                                else
                                  \<lparr>files_after = files, alerts = [],
                                   printed = out1 @ [NoChanges, JobFinished], raised = None,
                                   report = Some (update_detected, messages),
                                   saved = False\<rparr>)))))"

subsection \<open>Notions used to state the properties\<close>

text \<open>An element the title loop stops at: a listed name and non-empty stripped text.\<close>

definition title_candidate :: "node \<Rightarrow> bool" where
  "title_candidate e = (tag_name e \<in> set title_tags \<and> get_text_strip e \<noteq> [])"

text \<open>
  The heading and paragraph elements of HTML, for comparison with \<open>title_tags\<close>:
  the specification speaks of a heading-level or paragraph-level element.
\<close>

definition heading_or_paragraph_tags :: "string list" where
  "heading_or_paragraph_tags = [''h1'', ''h2'', ''h3'', ''h4'', ''h5'', ''h6'', ''p'']"

text \<open>The three state files hold the date \<open>d\<close> and the frame \<open>df\<close> of one observation.\<close>

definition reflects :: "'v world \<Rightarrow> fs \<Rightarrow> date \<Rightarrow> 'v row list \<Rightarrow> bool" where
  "reflects w files d df =
     (files LAST_DATE_FILE = Some (strftime_ymd d) \<and>
      files COMBINED_CSV_FILE = Some (to_csv w df) \<and>
      files LAST_HASH_FILE = Some (fingerprint w df))"

text \<open>Two frames hold the same rows of cells, each as often as the other, in any order.\<close>

definition same_cells :: "'v row list \<Rightarrow> 'v row list \<Rightarrow> bool" where
  "same_cells df1 df2 =
     (\<forall>c. count_list (map (\<lambda>r. (cells r, level r)) df1) c =
          count_list (map (\<lambda>r. (cells r, level r)) df2) c)"

subsection \<open>Sample pages and stand-ins for the libraries\<close>

text \<open>
  Concrete inputs on which the properties below are evaluated.  The stand-ins take the
  place of the libraries there: a reader of \<open>tr\<close> rows for \<open>pd.read\_html\<close>, simple sums
  for the two hash functions, joined cells for \<open>to\_csv\<close>, and a table of the sample
  pages for the HTML parser.
\<close>

fun children :: "node \<Rightarrow> node list" where
  "children (Text s) = []"
| "children (Tag n cs) = cs"

definition sample_read_html :: "node \<Rightarrow> exn + string parsed" where
  "sample_read_html t =
     (let grid = map (\<lambda>tr. map get_text_strip (filter is_tag (children tr)))
                   (filter (\<lambda>c. tag_name c = ''tr'') (children t))
      in if grid = [] then Inl ValueError
         else Inr \<lparr>ncols = length (hd grid), body = grid\<rparr>)"

definition sample_row_hash :: "string row \<Rightarrow> 64 word" where
  "sample_row_hash r =
     of_nat (idx r + sum_list (map (\<lambda>c. sum_list (map of_char c)) (level r # cells r)))"

definition sample_md5 :: "64 word list \<Rightarrow> 128 word" where
  "sample_md5 hs = foldl (\<lambda>acc h. 31 * acc + of_nat (unat h)) 7 hs"

definition sample_to_csv :: "string row list \<Rightarrow> string" where
  "sample_to_csv df = concat (map (\<lambda>r. concat (map (\<lambda>c. c @ '','') (cells r)) @ level r @ '';'') df)"

definition tr6 :: "string \<Rightarrow> node" where
  "tr6 c = Tag ''tr'' (replicate 6 (Tag ''td'' [Text c]))"

definition table_ab :: node where
  "table_ab = Tag ''table'' [tr6 ''Head'', tr6 ''a'', tr6 ''b'']"

definition table_c :: node where
  "table_c = Tag ''table'' [tr6 ''Head'', tr6 ''c'']"

definition table_bad :: node where
  "table_bad = Tag ''table'' [Tag ''tr'' [Tag ''td'' [Text ''x'']]]"

definition page_stamped :: soup where
  "page_stamped = [Tag ''p'' [Text ''Last update: 6/1/25''], Tag ''h2'' [Text '' Senior ''], table_ab]"

definition page_unstamped :: soup where
  "page_unstamped = [Tag ''h2'' [Text ''Senior''], table_ab]"

definition page_three :: soup where
  "page_three = [Tag ''h2'' [Text ''One''], table_ab, table_bad, Tag ''h3'' [Text ''Three''], table_c]"

definition page_empty :: soup where
  "page_empty = [Tag ''h1'' [Text ''Not Found'']]"

definition page_bad_stamp :: soup where
  "page_bad_stamp = [Tag ''p'' [Text ''Last update: 13/45/25'']]"

definition page_strong :: soup where
  "page_strong = [Tag ''strong'' [Text ''Senior''], table_c]"

definition page_h5 :: soup where
  "page_h5 = [Tag ''h5'' [Text ''Head''], table_c]"

definition sample_pages :: "(string \<times> soup) list" where
  "sample_pages =
     [(''stamped'', page_stamped), (''unstamped'', page_unstamped), (''three'', page_three),
      (''empty'', page_empty), (''bad stamp'', page_bad_stamp)]"

definition sample_parser :: "string \<Rightarrow> soup" where
  "sample_parser s = (case map_of sample_pages s of Some doc \<Rightarrow> doc | None \<Rightarrow> [Text s])"

definition sample_world :: "string world" where
  "sample_world =
     \<lparr>html_parser = sample_parser, read_html = sample_read_html,
      hash_pandas_object = map sample_row_hash, md5 = sample_md5, to_csv = sample_to_csv\<rparr>"

definition sample_response :: "string \<Rightarrow> exn + response" where
  "sample_response s = Inr \<lparr>status_code = 200, response_text = s\<rparr>"

text \<open>
  A frame of \<open>2 * length bs\<close> rows in pairs: a pair is the row of \<open>a\<close> cells then the
  row of \<open>b\<close> cells, or the other way round, as the flag says.
\<close>

definition pair_cells :: "bool list \<Rightarrow> string list" where
  "pair_cells bs = concat (map (\<lambda>b. if b then [''a'', ''b''] else [''b'', ''a'']) bs)"

definition pairs_frame :: "bool list \<Rightarrow> string row list" where
  "pairs_frame bs =
     map (\<lambda>(i, c). \<lparr>idx = i, cells = replicate 6 c, level = ''Senior''\<rparr>)
       (enumerate 0 (pair_cells bs))"

text \<open>The rows the sample table of two data rows gives under the heading \<open>Senior\<close>.\<close>

definition rows_ab :: "string row list" where
  "rows_ab =
     [\<lparr>idx = 0, cells = replicate 6 ''a'', level = ''Senior''\<rparr>,
      \<lparr>idx = 1, cells = replicate 6 ''b'', level = ''Senior''\<rparr>]"

text \<open>What one table adds to the combined frame, and what it makes the script print.\<close>

definition rows_of_table :: "'v world \<Rightarrow> soup \<Rightarrow> nat \<times> nat \<times> node \<Rightarrow> 'v row list" where
  "rows_of_table w doc = (\<lambda>(i, p, t).
     case table_frame w (table_title doc i p) t of Inr df \<Rightarrow> df | Inl e \<Rightarrow> [])"

definition warning_of_table :: "'v world \<Rightarrow> soup \<Rightarrow> nat \<times> nat \<times> node \<Rightarrow> event list" where
  "warning_of_table w doc = (\<lambda>(i, p, t).
     case table_frame w (table_title doc i p) t of
       Inr df \<Rightarrow> [] | Inl e \<Rightarrow> [FailedToParse (i + 1) e])"

section \<open>Properties\<close>

subsection \<open>Digits, dates and digests\<close>

lemma digit_char_lt10:
  assumes "n < 10"
  shows "digit_val (digit_char n) = n" and "isdigit (digit_char n)"
    and "\<not> isspace (digit_char n)"
proof -
  let ?P = "\<lambda>n. digit_val (digit_char n) = n \<and> isdigit (digit_char n) \<and>
                \<not> isspace (digit_char n)"
  let ?ds = "[0, 1, 2, 3, 4, 5, 6, 7, 8, (9::nat)]"
  have "list_all ?P ?ds"
    by (simp add: digit_val_def digit_char_def isdigit_def isspace_def)
  moreover have "n \<in> set ?ds"
    using assms by simp arith
  ultimately have "?P n"
    unfolding list_all_iff by blast
  then show "digit_val (digit_char n) = n" and "isdigit (digit_char n)"
    and "\<not> isspace (digit_char n)"
    by simp_all
qed

lemma digit_char_mod: "digit_char (n mod 10) = digit_char n"
  by (simp add: digit_char_def)

lemma digit_val_char [simp]: "digit_val (digit_char n) = n mod 10"
  using digit_char_lt10(1) [of "n mod 10"] by (simp add: digit_char_mod)

lemma isdigit_char [simp]: "isdigit (digit_char n)"
  using digit_char_lt10(2) [of "n mod 10"] by (simp add: digit_char_mod)

lemma not_isspace_digit_char [simp]: "\<not> isspace (digit_char n)"
  using digit_char_lt10(3) [of "n mod 10"] by (simp add: digit_char_mod)

lemma digits4:
  "1000 * (y div 1000) + 100 * (y div 100 mod 10) + 10 * (y div 10 mod 10) + y mod 10 = (y::nat)"
proof -
  define a where "a = y div 10"
  define b where "b = a div 10"
  define c where "c = b div 10"
  have b: "y div 100 = b" and c: "y div 1000 = c"
    by (simp_all add: a_def b_def c_def div_mult2_eq)
  have "y = 10 * a + y mod 10" "a = 10 * b + a mod 10" "b = 10 * c + b mod 10"
    by (simp_all add: a_def b_def c_def)
  then show ?thesis
    unfolding b c a_def [symmetric] by linarith
qed

lemma re_Y_pad4: "y < 10000 \<Longrightarrow> re_Y (pad4 y @ r) = [(y, r)]"
  by (simp add: re_Y_def pad4_def digits4)

lemma re_m_pad2:
  assumes "1 \<le> m" "m \<le> 12"
  shows "\<exists>X. re_m (pad2 m @ r) = (m, r) # X"
proof -
  let ?ms = "[1, 2, 3, 4, 5, 6, 7, 8, 9, 10, 11, (12::nat)]"
  have "list_all (\<lambda>m. \<exists>X. re_m (pad2 m @ r) = (m, r) # X) ?ms"
    by (simp add: re_m_def pad2_def digit_char_def digit_val_def)
  moreover have "m \<in> set ?ms"
    using assms by simp arith
  ultimately show ?thesis
    unfolding list_all_iff by blast
qed

lemma re_d_pad2:
  assumes "1 \<le> d" "d \<le> 31"
  shows "\<exists>X. re_d (pad2 d @ r) = (d, r) # X"
proof -
  let ?P = "\<lambda>d. \<exists>X. re_d (pad2 d @ r) = (d, r) # X"
  let ?units = "[1, 2, 3, 4, 5, 6, 7, 8, (9::nat)]"
  let ?tens = "[10, 11, 12, 13, 14, 15, 16, 17, 18, (19::nat)]"
  let ?twenties = "[20, 21, 22, 23, 24, 25, 26, 27, 28, (29::nat)]"
  let ?thirties = "[30, (31::nat)]"
  have "list_all ?P ?units" "list_all ?P ?tens" "list_all ?P ?twenties" "list_all ?P ?thirties"
    by (simp_all add: re_d_def pad2_def digit_char_def digit_val_def isdigit_def)
  moreover have "d \<in> set ?units \<or> d \<in> set ?tens \<or> d \<in> set ?twenties \<or> d \<in> set ?thirties"
    using assms by simp arith
  ultimately show ?thesis
    unfolding list_all_iff by blast
qed

lemma days_in_month_le: "days_in_month y m \<le> 31"
  by (simp add: days_in_month_def)

text \<open>Reading back a date that \<open>strftime\<close> wrote gives the date.\<close>

lemma strptime_strftime:
  assumes "valid_date (year d) (month d) (day d)"
  shows "strptime_ymd (strftime_ymd d) = Inr d"
proof -
  have y: "year d < 10000" and m: "1 \<le> month d" "month d \<le> 12"
    and dd: "1 \<le> day d" "day d \<le> 31"
    using assms days_in_month_le [of "year d" "month d"] by (auto simp: valid_date_def)
  obtain X where X: "re_m (pad2 (month d) @ CHR ''-'' # pad2 (day d)) =
      (month d, CHR ''-'' # pad2 (day d)) # X"
    using re_m_pad2 [OF m] by blast
  obtain Y where Y: "re_d (pad2 (day d) @ []) = (day d, []) # Y"
    using re_d_pad2 [OF dd] by blast
  show ?thesis
    using assms X Y
    by (simp add: strptime_ymd_def strftime_ymd_def re_Y_pad4 [OF y] lit_def mk_date_def)
qed

lemma mk_date_valid: "mk_date y m d = Inr x \<Longrightarrow> valid_date (year x) (month x) (day x)"
  by (auto simp: mk_date_def split: if_splits)

lemma strptime_mdy_valid:
  "strptime_mdy s = Inr x \<Longrightarrow> valid_date (year x) (month x) (day x)"
  unfolding strptime_mdy_def
  by (simp split: list.splits prod.splits if_splits add: mk_date_valid)

lemma fetch_update_date_valid:
  "fetch_update_date doc = Inr (Some x) \<Longrightarrow> valid_date (year x) (month x) (day x)"
  by (auto simp: fetch_update_date_def split: option.splits sum.splits
           dest: strptime_mdy_valid)

lemma strip_id:
  assumes "s \<noteq> []" "\<not> isspace (hd s)" "\<not> isspace (last s)"
  shows "strip s = s"
proof -
  have "dropWhile isspace s = s"
    using assms by (simp add: dropWhile_eq_self_iff)
  moreover have "dropWhile isspace (rev s) = rev s"
    using assms by (simp add: dropWhile_eq_self_iff hd_rev)
  ultimately show ?thesis by (simp add: strip_def)
qed

lemma strip_strftime: "strip (strftime_ymd d) = strftime_ymd d"
  by (rule strip_id) (simp_all add: strftime_ymd_def pad4_def pad2_def)

lemma hex_char_not_space: "\<not> isspace (hex_char n)"
proof -
  have "\<forall>c \<in> set ''0123456789abcdef''. \<not> isspace c"
    by (simp add: isspace_def)
  moreover have "hex_char n \<in> set ''0123456789abcdef''"
    unfolding hex_char_def by (rule nth_mem) simp
  ultimately show ?thesis by blast
qed

lemma length_hex_pad [simp]: "length (hex_pad k n) = k"
  by (induction k arbitrary: n) simp_all

lemma hex_pad_not_space: "c \<in> set (hex_pad k n) \<Longrightarrow> \<not> isspace c"
  by (induction k arbitrary: n) (auto simp: hex_char_not_space)

lemma strip_hexdigest: "strip (hexdigest d) = hexdigest d"
proof (rule strip_id)
  have "length (hexdigest d) = 32"
    unfolding hexdigest_def by (rule length_hex_pad)
  then show ne: "hexdigest d \<noteq> []" by auto
  then have "hd (hexdigest d) \<in> set (hexdigest d)" "last (hexdigest d) \<in> set (hexdigest d)"
    by simp_all
  then show "\<not> isspace (hd (hexdigest d))" "\<not> isspace (last (hexdigest d))"
    unfolding hexdigest_def by (blast dest: hex_pad_not_space)+
qed

lemma hex_char_inj: "hex_char n = hex_char m \<Longrightarrow> n mod 16 = m mod 16"
proof -
  assume "hex_char n = hex_char m"
  moreover have "distinct ''0123456789abcdef''" by simp
  ultimately show ?thesis
    unfolding hex_char_def by (simp add: nth_eq_iff_index_eq)
qed

lemma hex_pad_inj: "hex_pad k n = hex_pad k m \<Longrightarrow> n mod 16 ^ k = m mod 16 ^ k"
proof (induction k arbitrary: n m)
  case 0
  then show ?case by simp
next
  case (Suc k)
  from Suc.prems have a: "hex_pad k (n div 16) = hex_pad k (m div 16)"
    and b: "hex_char n = hex_char m" by simp_all
  have c: "n div 16 mod 16 ^ k = m div 16 mod 16 ^ k" using Suc.IH [OF a] .
  have d: "n mod 16 = m mod 16" using hex_char_inj [OF b] .
  have "n mod (16 * 16 ^ k) = 16 * (n div 16 mod 16 ^ k) + n mod 16"
    by (rule mod_mult2_eq)
  moreover have "m mod (16 * 16 ^ k) = 16 * (m div 16 mod 16 ^ k) + m mod 16"
    by (rule mod_mult2_eq)
  ultimately show ?case using c d by (simp only: power_Suc)
qed

lemma hexdigest_inj: "hexdigest a = hexdigest b \<Longrightarrow> a = b"
proof -
  assume "hexdigest a = hexdigest b"
  then have e: "unat a mod 16 ^ 32 = unat b mod 16 ^ 32"
    unfolding hexdigest_def by (rule hex_pad_inj)
  have "(16::nat) ^ 32 = 2 ^ LENGTH(128)" by simp
  then have "unat a < 16 ^ 32" "unat b < 16 ^ 32"
    using unsigned_less [of a, where ?'a = nat] unsigned_less [of b, where ?'a = nat]
    by presburger+
  with e have "unat a = unat b" by (simp only: mod_less)
  then show ?thesis by (simp only: word_unat_eq_iff)
qed

subsection \<open>The change detector\<close>

text \<open>
  Claim C1.  The detector marks a change exactly when the current update date is present
  and differs from the stored date, or the current fingerprint differs from the stored
  one; an absent stored value differs from every current value.  The two checks are
  independent and their messages accumulate, the date message first; when neither check
  fires the result is no change and no message.
\<close>

theorem detect_changes_spec:
  "fst (detect_changes latest h prev_date prev_hash) =
     ((latest \<noteq> None \<and> latest \<noteq> prev_date) \<or> Some h \<noteq> prev_hash) \<and>
   snd (detect_changes latest h prev_date prev_hash) =
     (case latest of
        Some d \<Rightarrow> if Some d \<noteq> prev_date then [DateChanged prev_date d] else []
      | None \<Rightarrow> []) @
     (if Some h \<noteq> prev_hash then [ContentChanged] else []) \<and>
   fst (detect_changes (Some d) h None prev_hash) \<and>
   fst (detect_changes latest h prev_date None) \<and>
   detect_changes (Some d) h (Some d) (Some h) = (False, []) \<and>
   detect_changes None h prev_date (Some h) = (False, [])"
  by (auto simp: detect_changes_def split: option.splits)

theorem detect_changes_spec_witness:
  "detect_changes (Some \<lparr>year = 2025, month = 6, day = 1\<rparr>) ''ab''
     (Some \<lparr>year = 2025, month = 5, day = 1\<rparr>) (Some ''cd'') =
     (True, [DateChanged (Some \<lparr>year = 2025, month = 5, day = 1\<rparr>)
               \<lparr>year = 2025, month = 6, day = 1\<rparr>, ContentChanged]) \<and>
   detect_changes (Some \<lparr>year = 2025, month = 6, day = 1\<rparr>) ''ab''
     (Some \<lparr>year = 2025, month = 5, day = 1\<rparr>) (Some ''ab'') =
     (True, [DateChanged (Some \<lparr>year = 2025, month = 5, day = 1\<rparr>)
               \<lparr>year = 2025, month = 6, day = 1\<rparr>]) \<and>
   detect_changes None ''ab'' (Some \<lparr>year = 2025, month = 5, day = 1\<rparr>) None =
     (True, [ContentChanged]) \<and>
   detect_changes (Some \<lparr>year = 2025, month = 6, day = 1\<rparr>) ''ab''
     (Some \<lparr>year = 2025, month = 6, day = 1\<rparr>) (Some ''ab'') = (False, [])"
  using
    detect_changes_spec [of "Some \<lparr>year = 2025, month = 6, day = 1\<rparr>" "''ab''"
      "Some \<lparr>year = 2025, month = 5, day = 1\<rparr>" "Some ''cd''"]
    detect_changes_spec [of "Some \<lparr>year = 2025, month = 6, day = 1\<rparr>" "''ab''"
      "Some \<lparr>year = 2025, month = 5, day = 1\<rparr>" "Some ''ab''"]
    detect_changes_spec [of None "''ab''" "Some \<lparr>year = 2025, month = 5, day = 1\<rparr>" None]
    detect_changes_spec [of "Some \<lparr>year = 2025, month = 6, day = 1\<rparr>" "''ab''"
      "Some \<lparr>year = 2025, month = 6, day = 1\<rparr>" "Some ''ab''"]
  by (simp add: prod_eq_iff)

subsection \<open>Saving and loading the state\<close>

lemma file_names_distinct:
  "LAST_DATE_FILE \<noteq> LAST_HASH_FILE" "LAST_DATE_FILE \<noteq> COMBINED_CSV_FILE"
  "COMBINED_CSV_FILE \<noteq> LAST_HASH_FILE" "LAST_HASH_FILE \<noteq> LAST_DATE_FILE"
  "COMBINED_CSV_FILE \<noteq> LAST_DATE_FILE" "LAST_HASH_FILE \<noteq> COMBINED_CSV_FILE"
  by (simp_all add: LAST_DATE_FILE_def LAST_HASH_FILE_def COMBINED_CSV_FILE_def)

lemma save_current_state_None:
  "save_current_state w files None df = (files(LAST_DATE_FILE \<mapsto> []), Some AttributeError)"
  by (simp add: save_current_state_def save_plan_def)

lemma save_current_state_Some:
  "save_current_state w files (Some d) df =
     (files(LAST_DATE_FILE \<mapsto> strftime_ymd d, COMBINED_CSV_FILE \<mapsto> to_csv w df,
            LAST_HASH_FILE \<mapsto> fingerprint w df), None)"
  by (simp add: save_current_state_def save_plan_def)

lemma reflects_saved:
  "reflects w (files(LAST_DATE_FILE \<mapsto> strftime_ymd d, COMBINED_CSV_FILE \<mapsto> to_csv w df,
                     LAST_HASH_FILE \<mapsto> fingerprint w df)) d df"
  by (simp add: reflects_def file_names_distinct)

lemma load_after_save:
  assumes "valid_date (year d) (month d) (day d)"
  shows "load_previous_state
           (files(LAST_DATE_FILE \<mapsto> strftime_ymd d, COMBINED_CSV_FILE \<mapsto> csv,
                  LAST_HASH_FILE \<mapsto> fingerprint w df)) =
         Inr (Some d, Some (fingerprint w df))"
  using assms
  by (simp add: load_previous_state_def file_names_distinct strip_strftime
        strptime_strftime fingerprint_def strip_hexdigest)

text \<open>What is known of a run in which \<open>save_current_state\<close> returned.\<close>

lemma saved_main:
  assumes "saved (main w (Inr r) smtp files)"
  obtains d where
    "fetch_update_date (html_parser w (response_text r)) = Inr (Some d)"
    "fst (extract_and_combine_tables w (html_parser w (response_text r))) \<noteq> []"
    "files_after (main w (Inr r) smtp files) =
       files(LAST_DATE_FILE \<mapsto> strftime_ymd d,
             COMBINED_CSV_FILE \<mapsto>
               to_csv w (fst (extract_and_combine_tables w (html_parser w (response_text r)))),
             LAST_HASH_FILE \<mapsto>
               fingerprint w (fst (extract_and_combine_tables w (html_parser w (response_text r)))))"
proof -
  obtain df out where e: "extract_and_combine_tables w (html_parser w (response_text r)) = (df, out)"
    by (cases "extract_and_combine_tables w (html_parser w (response_text r))")
  obtain dd where f: "fetch_update_date (html_parser w (response_text r)) = Inr dd"
    using assms unfolding main_def by (auto simp: Let_def split: sum.splits)
  have ne: "df \<noteq> []"
    using assms unfolding main_def by (auto simp: Let_def e f split: if_splits)
  obtain pd ph where l: "load_previous_state files = Inr (pd, ph)"
    using assms ne unfolding main_def by (auto simp: Let_def e f split: sum.splits)
  obtain d where d: "dd = Some d"
    using assms ne unfolding main_def
    by (cases dd) (auto simp: Let_def e f l save_current_state_None split: prod.splits if_splits)
  have "files_after (main w (Inr r) smtp files) =
       files(LAST_DATE_FILE \<mapsto> strftime_ymd d, COMBINED_CSV_FILE \<mapsto> to_csv w df,
             LAST_HASH_FILE \<mapsto> fingerprint w df)"
    using assms ne unfolding main_def
    by (auto simp: Let_def e f l d save_current_state_Some split: prod.splits if_splits option.splits)
  then show ?thesis
    using that [of d] f d ne e by simp
qed

subsection \<open>The sample pages, evaluated\<close>

lemma sample_parser_pages:
  "html_parser sample_world ''stamped'' = page_stamped"
  "html_parser sample_world ''unstamped'' = page_unstamped"
  "html_parser sample_world ''three'' = page_three"
  "html_parser sample_world ''empty'' = page_empty"
  "html_parser sample_world ''bad stamp'' = page_bad_stamp"
  by (simp_all add: sample_world_def sample_parser_def sample_pages_def)

lemma sample_dates:
  "fetch_update_date page_stamped = Inr (Some \<lparr>year = 2025, month = 6, day = 1\<rparr>)"
  "fetch_update_date page_unstamped = Inr None"
  "fetch_update_date page_empty = Inr None"
  "fetch_update_date page_bad_stamp = Inl ValueError"
  by code_simp+

lemma sample_tables:
  "extract_and_combine_tables sample_world page_stamped = (rows_ab, [])"
  "extract_and_combine_tables sample_world page_unstamped = (rows_ab, [])"
  "extract_and_combine_tables sample_world page_empty = ([], [])"
  "extract_and_combine_tables sample_world page_bad_stamp = ([], [])"
  by code_simp+

lemma rows_ab_not_empty: "rows_ab \<noteq> []"
  by (simp add: rows_ab_def)

lemma load_no_files: "load_previous_state Map.empty = Inr (None, None)"
  by (simp add: load_previous_state_def)

subsection \<open>A change on a page without a stamp\<close>

text \<open>
  Claim C3.  When a change is detected on a run whose page has no \<open>Last update:\<close>
  stamp, \<open>save_current_state\<close> gets an absent date: the date file is opened for
  writing, which empties it, the formatting of the date raises \<open>AttributeError\<close>, and
  the run ends with that error.  The other two files are not touched, the save did not
  return, and \<open>send_email_alert\<close> was never called.  The change detected is the
  content one.
\<close>

theorem save_without_date_aborts:
  assumes d: "fetch_update_date (html_parser w (response_text r)) = Inr None"
    and c: "report (main w (Inr r) smtp files) = Some (True, ms)"
  shows "raised (main w (Inr r) smtp files) = Some AttributeError \<and>
         files_after (main w (Inr r) smtp files) = files(LAST_DATE_FILE \<mapsto> []) \<and>
         alerts (main w (Inr r) smtp files) = [] \<and>
         \<not> saved (main w (Inr r) smtp files) \<and>
         ms = [ContentChanged]"
  using c unfolding main_def
  by (auto simp: d Let_def save_current_state_None detect_changes_def
           split: prod.splits if_splits sum.splits)

theorem save_without_date_aborts_witness:
  "fetch_update_date (html_parser sample_world ''unstamped'') = Inr None \<and>
   report (main sample_world (sample_response ''unstamped'') None Map.empty) =
     Some (True, [ContentChanged]) \<and>
   raised (main sample_world (sample_response ''unstamped'') None Map.empty) =
     Some AttributeError \<and>
   files_after (main sample_world (sample_response ''unstamped'') None Map.empty) =
     [LAST_DATE_FILE \<mapsto> []] \<and>
   alerts (main sample_world (sample_response ''unstamped'') None Map.empty) = []"
proof -
  let ?r = "\<lparr>status_code = 200, response_text = ''unstamped''\<rparr>"
  have c: "report (main sample_world (Inr ?r) None Map.empty) = Some (True, [ContentChanged])"
    unfolding main_def
    by (simp add: Let_def sample_parser_pages sample_dates sample_tables rows_ab_not_empty
          load_no_files detect_changes_def save_current_state_None)
  have d: "fetch_update_date (html_parser sample_world (response_text ?r)) = Inr None"
    by (simp add: sample_parser_pages sample_dates)
  show ?thesis
    using save_without_date_aborts [OF d c] c d by (simp add: sample_response_def)
qed

end
